theory Spec2Isabelle
  imports Main
begin

section \<open>Values of the program\<close>

text \<open>
  Timestamps are JavaScript numbers holding whole milliseconds (\<open>Date.now()\<close> and sums of
  it with integer constants), modelled as \<open>int\<close>. An optional numeric argument is an
  \<open>int option\<close>, \<open>None\<close> being \<open>undefined\<close>. Objects compared with \<open>===\<close> carry the
  address they were allocated at.
\<close>

record assetKey =
  policy :: string
  secret :: string

datatype error =
    FailedToCreateAssetKey nat
  | FetchRejected string
  | ExpiryTooFar "int option" int
  | InvalidURL string
  | SignFailed string

text \<open>
  \<open>FailedToCreateAssetKey status\<close> is the error thrown on a response that is not ok,
  \<open>FetchRejected\<close> a rejection of \<open>fetch\<close> or of \<open>response.json()\<close>,
  \<open>ExpiryTooFar minExpiresAtMs expiresAtMs\<close> the error thrown by the cache,
  \<open>InvalidURL\<close> the \<open>TypeError\<close> of \<open>new URL\<close>, \<open>SignFailed\<close> an error thrown by
  \<open>jwt.sign\<close>.
\<close>

subsection \<open>Comparisons with a possibly undefined operand\<close>

text \<open>
  \<open>a < b\<close> and \<open>a > b\<close> convert \<open>undefined\<close> to \<open>NaN\<close>, and every comparison with
  \<open>NaN\<close> is false.
\<close>

definition js_lt :: "int \<Rightarrow> int option \<Rightarrow> bool" where
  "js_lt a b = (case b of None \<Rightarrow> False | Some y \<Rightarrow> a < y)"

definition js_gt :: "int option \<Rightarrow> int \<Rightarrow> bool" where
  "js_gt a b = (case a of None \<Rightarrow> False | Some x \<Rightarrow> x > b)"

section \<open>createAssetKey\<close>

text \<open>
  The request that \<open>createAssetKey\<close> sends before it suspends at \<open>await fetch(...)\<close>:
  a POST whose JSON body is \<open>{expiresAt: Math.floor(expiresAtMs / 1000)}\<close>. The first
  argument is the clock, read only when \<open>expiresAtMs\<close> is undefined.
\<close>

record request =
  httpMethod :: string
  endpoint :: string
  contentType :: string
  authorization :: string
  expiresAt :: int

definition createAssetKey_request ::
  "int \<Rightarrow> string \<Rightarrow> string \<Rightarrow> string \<Rightarrow> string \<Rightarrow> int option \<Rightarrow> request" where
  "createAssetKey_request now host accessToken spaceId environmentId expiresAtMs =
     (let e = (case expiresAtMs of None \<Rightarrow> now + 48 * 60 * 60 * 1000 | Some x \<Rightarrow> x) in
      \<lparr> httpMethod = ''POST'',
        endpoint = ''https://'' @ host @ ''/spaces/'' @ spaceId @ ''/environments/''
                     @ environmentId @ ''/asset_keys'',
        contentType = ''application/json'',
        authorization = ''Bearer '' @ accessToken,
        expiresAt = e div 1000 \<rparr>)"

text \<open>
  What comes back: \<open>fetch\<close> rejects, or it yields a response with its \<open>ok\<close> flag, its
  status and the outcome of \<open>response.json()\<close>. The rest of \<open>createAssetKey\<close> turns it
  into the value or the error its promise settles with.
\<close>

datatype reply = Unreachable string | Response bool nat "string + assetKey"

fun createAssetKey_result :: "reply \<Rightarrow> error + assetKey" where
  "createAssetKey_result (Unreachable msg) = Inl (FetchRejected msg)"
| "createAssetKey_result (Response ok status body) =
     (if \<not> ok then Inl (FailedToCreateAssetKey status)
      else case body of Inl msg \<Rightarrow> Inl (FetchRejected msg) | Inr k \<Rightarrow> Inr k)"

section \<open>The cache\<close>

text \<open>
  A cache item is the object \<open>{expiresAtMs, promise}\<close>; \<open>ref\<close> is its address and
  \<open>promise\<close> the address of the promise returned by \<open>.catch\<close>. A call that starts a
  fetch allocates the promise at the next free address and the item right after it. The
  state holds the
  module-level \<open>assetKeyCache\<close>, the state of every promise handed out, the fetches that
  have not settled yet (each with what its \<open>catch\<close> callback closes over: \<open>cacheKey\<close> and
  the variable \<open>cacheItem\<close>, which holds the new item by the time the callback can run),
  the requests sent so far, and the next free address.
\<close>

record cacheItem =
  ref :: nat
  expiresAtMs :: int
  promise :: nat

datatype settled = Pending | Fulfilled assetKey | Rejected error

record fetch =
  cacheKey :: string
  installed :: cacheItem

record state =
  assetKeyCache :: "string \<rightharpoonup> cacheItem"
  promises :: "nat \<rightharpoonup> settled"
  inflight :: "nat \<rightharpoonup> fetch"
  requests :: "request list"
  heapTop :: nat

definition init :: state where
  "init = \<lparr> assetKeyCache = Map.empty, promises = Map.empty, inflight = Map.empty,
            requests = [], heapTop = 0 \<rparr>"

text \<open>The cache key, \<open>host:spaceId:environmentId\<close>.\<close>

definition scopeKey :: "string \<Rightarrow> string \<Rightarrow> string \<Rightarrow> string" where
  "scopeKey host spaceId environmentId = host @ '':'' @ spaceId @ '':'' @ environmentId"

text \<open>
  \<open>createCachedAssetKey\<close> runs to completion without interruption. It returns the thrown
  error or the address of the promise it returns, and the new state. Its first argument
  is the value \<open>Date.now()\<close> has during the call.
\<close>

definition createCachedAssetKey ::
  "int \<Rightarrow> string \<Rightarrow> string \<Rightarrow> string \<Rightarrow> string \<Rightarrow> int option \<Rightarrow> state
     \<Rightarrow> (error + nat) \<times> state" where
  "createCachedAssetKey now host accessToken spaceId environmentId minExpiresAtMs s =
     (let k = scopeKey host spaceId environmentId;
          item = assetKeyCache s k;
          fresh =
            (let e = now + 48 * 60 * 60 * 1000 in
             if js_gt minExpiresAtMs e then (Inl (ExpiryTooFar minExpiresAtMs e), s)
             else
               (let p = heapTop s;
                    c = \<lparr> ref = Suc p, expiresAtMs = e, promise = p \<rparr> in
                (Inr p,
                 s\<lparr> assetKeyCache := (assetKeyCache s)(k \<mapsto> c),
                    promises := (promises s)(p \<mapsto> Pending),
                    inflight := (inflight s)(p \<mapsto> \<lparr> cacheKey = k, installed = c \<rparr>),
                    requests := requests s @
                      [createAssetKey_request now host accessToken spaceId environmentId
                         (Some e)],
                    heapTop := p + 2 \<rparr>)))
      in case item of
           None \<Rightarrow> fresh
         | Some c \<Rightarrow>
             if js_lt (expiresAtMs c) minExpiresAtMs then fresh else (Inr (promise c), s))"

text \<open>
  The fetch behind promise \<open>p\<close> settles with reply \<open>r\<close>. On success the promise is
  fulfilled with the asset key. On failure the \<open>catch\<close> callback runs: it reads the cache
  again, deletes the entry when it is the very object this fetch installed (\<open>===\<close>), and
  rejects the promise with the same error. A promise that is not in flight is left alone.
\<close>

definition sameObject :: "cacheItem option \<Rightarrow> cacheItem \<Rightarrow> bool" where
  "sameObject cur c = (case cur of None \<Rightarrow> False | Some d \<Rightarrow> ref d = ref c)"

definition settle :: "nat \<Rightarrow> reply \<Rightarrow> state \<Rightarrow> state" where
  "settle p r s =
     (case inflight s p of
        None \<Rightarrow> s
      | Some f \<Rightarrow>
          (case createAssetKey_result r of
             Inr key \<Rightarrow>
               s\<lparr> promises := (promises s)(p \<mapsto> Fulfilled key),
                  inflight := (inflight s)(p := None) \<rparr>
           | Inl err \<Rightarrow>
               (let curCacheItem = assetKeyCache s (cacheKey f) in
                s\<lparr> assetKeyCache :=
                     (if sameObject curCacheItem (installed f)
                      then (assetKeyCache s)(cacheKey f := None) else assetKeyCache s),
                   promises := (promises s)(p \<mapsto> Rejected err),
                   inflight := (inflight s)(p := None) \<rparr>)))"

text \<open>
  What happens to the module over time: calls of \<open>createCachedAssetKey\<close> and fetches
  settling, in any order. \<open>exec\<close> gives the state after a sequence of events and
  \<open>returned\<close> what each call of the sequence returned.
\<close>

datatype event =
    Call int string string string string "int option"
  | Settle nat reply

fun step :: "state \<Rightarrow> event \<Rightarrow> state" where
  "step s (Call now host accessToken spaceId environmentId minExpiresAtMs) =
     snd (createCachedAssetKey now host accessToken spaceId environmentId minExpiresAtMs s)"
| "step s (Settle p r) = settle p r s"

fun exec :: "state \<Rightarrow> event list \<Rightarrow> state" where
  "exec s [] = s"
| "exec s (ev # evs) = exec (step s ev) evs"

fun returned :: "state \<Rightarrow> event list \<Rightarrow> (error + nat) list" where
  "returned s [] = []"
| "returned s (Call now host accessToken spaceId environmentId minExpiresAtMs # evs) =
     fst (createCachedAssetKey now host accessToken spaceId environmentId minExpiresAtMs s)
       # returned (step s (Call now host accessToken spaceId environmentId minExpiresAtMs)) evs"
| "returned s (Settle p r # evs) = returned (step s (Settle p r)) evs"

fun callTimes :: "event list \<Rightarrow> int list" where
  "callTimes [] = []"
| "callTimes (Call now host accessToken spaceId environmentId minExpiresAtMs # evs) =
     now # callTimes evs"
| "callTimes (Settle p r # evs) = callTimes evs"

text \<open>The fetches in flight for one scope key, by the address of their promise.\<close>

definition inflightFor :: "state \<Rightarrow> string \<Rightarrow> nat list" where
  "inflightFor s k =
     filter (\<lambda>p. case inflight s p of None \<Rightarrow> False | Some f \<Rightarrow> cacheKey f = k)
       [0 ..< heapTop s]"

section \<open>Signing\<close>

text \<open>
  \<open>jwt.sign\<close> belongs to the jsonwebtoken package and \<open>URL\<close> to the platform; neither
  is part of this program. The signer is a parameter that receives the three arguments
  of the call, and so are the URL parser (\<open>None\<close> when \<open>new URL\<close> throws) and
  \<open>toString\<close>. A parsed URL shows what the program reads and writes: \<open>origin\<close>,
  \<open>pathname\<close> and the list behind \<open>searchParams\<close>; \<open>other\<close> stands for the components
  it never touches. \<open>generateSignedToken\<close> returns or throws what the signer does, so
  the result type of the signer is left open there.
\<close>

record jwtPayload =
  sub :: string
  exp :: "int option"

record signOptions =
  algorithm :: string

record signCall =
  payload :: jwtPayload
  secretOrPrivateKey :: string
  options :: signOptions

record 'x url =
  origin :: string
  pathname :: string
  searchParams :: "(string \<times> string) list"
  other :: 'x

text \<open>
  \<open>expiresAtMs ? Math.floor(expiresAtMs / 1000) : undefined\<close>: a number is falsy when
  it is zero; \<open>div\<close> on \<open>int\<close> rounds down as \<open>Math.floor\<close> does. The argument
  \<open>expiresAtMs\<close> of the signing functions is written \<open>expMs\<close>.
\<close>

definition generateSignedToken ::
  "(signCall \<Rightarrow> 'r) \<Rightarrow> string \<Rightarrow> string \<Rightarrow> int option \<Rightarrow> 'r" where
  "generateSignedToken jwt_sign sec urlWithoutQueryParams expMs =
     (let e = (case expMs of
                 None \<Rightarrow> None
               | Some x \<Rightarrow> if x \<noteq> 0 then Some (x div 1000) else None) in
      jwt_sign \<lparr> payload = \<lparr> sub = urlWithoutQueryParams, exp = e \<rparr>,
                 secretOrPrivateKey = sec,
                 options = \<lparr> algorithm = ''HS256'' \<rparr> \<rparr>)"




text \<open>
  \<open>URLSearchParams.set(name, value)\<close>: when the list has pairs named \<open>name\<close>, the first
  of them takes the value and the others are removed; otherwise the pair is appended.
\<close>

fun setFirst :: "string \<Rightarrow> string \<Rightarrow> (string \<times> string) list \<Rightarrow> (string \<times> string) list" where
  "setFirst n v [] = []"
| "setFirst n v (q # qs) =
     (if fst q = n then (n, v) # filter (\<lambda>r. fst r \<noteq> n) qs else q # setFirst n v qs)"

definition searchParams_set ::
  "string \<Rightarrow> string \<Rightarrow> (string \<times> string) list \<Rightarrow> (string \<times> string) list" where
  "searchParams_set n v qs = (if n \<in> fst ` set qs then setFirst n v qs else qs @ [(n, v)])"

definition generateSignedUrl ::
  "(string \<Rightarrow> 'x url option) \<Rightarrow> ('x url \<Rightarrow> string) \<Rightarrow> (signCall \<Rightarrow> error + string)
     \<Rightarrow> string \<Rightarrow> string \<Rightarrow> string \<Rightarrow> int option \<Rightarrow> error + string" where
  "generateSignedUrl newURL toString jwt_sign pol sec u expMs =
     (case newURL u of
        None \<Rightarrow> Inl (InvalidURL u)
      | Some parsedUrl \<Rightarrow>
          (let urlWithoutQueryParams = origin parsedUrl @ pathname parsedUrl in
           case generateSignedToken jwt_sign sec urlWithoutQueryParams expMs of
             Inl err \<Rightarrow> Inl err
           | Inr token \<Rightarrow>
               Inr (toString
                 (parsedUrl\<lparr> searchParams :=
                    searchParams_set ''policy'' pol
                      (searchParams_set ''token'' token (searchParams parsedUrl)) \<rparr>))))"

text \<open>
  \<open>signUrl\<close> is asynchronous. Up to its \<open>await\<close> it calls \<open>createCachedAssetKey\<close>; an
  error thrown there rejects the promise of \<open>signUrl\<close> at once. \<open>signUrl_resume\<close> is the
  part after the \<open>await\<close>: nothing while the awaited promise is pending, the error when
  it is rejected, and the signed URL built from \<open>policy\<close> and \<open>secret\<close> of the asset key
  when it is fulfilled.
\<close>

definition signUrl ::
  "int \<Rightarrow> string \<Rightarrow> string \<Rightarrow> string \<Rightarrow> string \<Rightarrow> string \<Rightarrow> int option \<Rightarrow> state
     \<Rightarrow> (error + nat) \<times> state" where
  "signUrl now host accessToken spaceId environmentId u expMs s =
     createCachedAssetKey now host accessToken spaceId environmentId expMs s"


text \<open>The state in which a call that starts a fetch leaves the module.\<close>

definition afterInstall ::
  "int \<Rightarrow> string \<Rightarrow> string \<Rightarrow> string \<Rightarrow> string \<Rightarrow> state \<Rightarrow> state" where
  "afterInstall now host accessToken spaceId environmentId s =
     s\<lparr> assetKeyCache := (assetKeyCache s)(scopeKey host spaceId environmentId \<mapsto>
            \<lparr> ref = Suc (heapTop s), expiresAtMs = now + 172800000, promise = heapTop s \<rparr>),
        promises := (promises s)(heapTop s \<mapsto> Pending),
        inflight := (inflight s)(heapTop s \<mapsto>
            \<lparr> cacheKey = scopeKey host spaceId environmentId,
              installed = \<lparr> ref = Suc (heapTop s), expiresAtMs = now + 172800000,
                            promise = heapTop s \<rparr> \<rparr>),
        requests := requests s @
          [createAssetKey_request now host accessToken spaceId environmentId
             (Some (now + 172800000))],
        heapTop := heapTop s + 2 \<rparr>"

section \<open>Executions and reachable states\<close>

text \<open>
  \<open>callsOn\<close> turns a list of (clock, access token, minimum expiry) into calls for one
  scope. \<open>wf\<close> collects what allocation guarantees in every state reached from \<open>init\<close>:
  an item sits right after its promise on the heap, a fetch in flight closes over the item
  of its own promise, and a cached item whose fetch is in flight is the one that fetch
  installed. \<open>notAfter T\<close> says that no cached item expires later than 48 hours after
  \<open>T\<close>.
\<close>

definition callsOn ::
  "string \<Rightarrow> string \<Rightarrow> string \<Rightarrow> (int \<times> string \<times> int option) list \<Rightarrow> event list" where
  "callsOn host spaceId environmentId calls =
     map (\<lambda>(now, accessToken, m). Call now host accessToken spaceId environmentId m) calls"


definition notAfter :: "int \<Rightarrow> state \<Rightarrow> bool" where
  "notAfter T s \<longleftrightarrow>
     (\<forall>k c. assetKeyCache s k = Some c \<longrightarrow> expiresAtMs c \<le> T + 172800000)"

section \<open>Example values\<close>

text \<open>
  A single call, and two calls for one scope one millisecond apart, the second asking
  for the full 48 hours from its own clock; \<open>clockSetBack\<close> is a call made at clock
  1000, to be followed by one made at clock 0. The asset key, the URL and the three
  functions after them stand in for the platform in the examples: a parser that knows one
  URL, a serialiser without percent-encoding, and a signer that returns a tag of the
  subject.
\<close>

definition oneCall :: "event list" where
  "oneCall = [Call 0 ''cdn.contentful.com'' ''tok'' ''sp1'' ''master'' None]"

definition twoStrictCalls :: "event list" where
  "twoStrictCalls =
     [Call 0 ''cdn.contentful.com'' ''tok'' ''sp1'' ''master'' None,
      Call 1 ''cdn.contentful.com'' ''tok'' ''sp1'' ''master'' (Some 172800001)]"

definition clockSetBack :: "event list" where
  "clockSetBack = [Call 1000 ''cdn.contentful.com'' ''tok'' ''sp1'' ''master'' None]"

definition exampleKey :: assetKey where
  "exampleKey = \<lparr> policy = ''pol1'', secret = ''s3cr3t'' \<rparr>"

definition exampleHref :: string where
  "exampleHref = ''https://images.ctfassets.net/sp1/a/b.jpg?w=200&token=old''"

definition exampleParsed :: "unit url" where
  "exampleParsed =
     \<lparr> origin = ''https://images.ctfassets.net'', pathname = ''/sp1/a/b.jpg'',
       searchParams = [(''w'', ''200''), (''token'', ''old'')], other = () \<rparr>"

definition exampleURL :: "string \<Rightarrow> unit url option" where
  "exampleURL u = (if u = exampleHref then Some exampleParsed else None)"



definition exampleSign :: "signCall \<Rightarrow> error + string" where
  "exampleSign c = Inr (''jwt.'' @ sub (payload c))"

section \<open>The three outcomes of a call\<close>

lemma createCachedAssetKey_hit:
  assumes "assetKeyCache s (scopeKey host spaceId environmentId) = Some c"
      and "\<not> js_lt (expiresAtMs c) m"
  shows "createCachedAssetKey now host accessToken spaceId environmentId m s
           = (Inr (promise c), s)"
  using assms by (simp add: createCachedAssetKey_def)

lemma createCachedAssetKey_miss:
  assumes "assetKeyCache s (scopeKey host spaceId environmentId) = None
             \<or> (\<exists>c. assetKeyCache s (scopeKey host spaceId environmentId) = Some c
                    \<and> js_lt (expiresAtMs c) m)"
      and "\<not> js_gt m (now + 172800000)"
  shows "createCachedAssetKey now host accessToken spaceId environmentId m s =
           (Inr (heapTop s), afterInstall now host accessToken spaceId environmentId s)"
  using assms by (auto simp add: createCachedAssetKey_def afterInstall_def Let_def)

lemma createCachedAssetKey_too_far:
  assumes "assetKeyCache s (scopeKey host spaceId environmentId) = None
             \<or> (\<exists>c. assetKeyCache s (scopeKey host spaceId environmentId) = Some c
                    \<and> js_lt (expiresAtMs c) m)"
      and "js_gt m (now + 172800000)"
  shows "createCachedAssetKey now host accessToken spaceId environmentId m s =
           (Inl (ExpiryTooFar m (now + 172800000)), s)"
  using assms by (auto simp add: createCachedAssetKey_def Let_def)

lemma createCachedAssetKey_cases:
  obtains (hit) c where "assetKeyCache s (scopeKey host spaceId environmentId) = Some c"
      "\<not> js_lt (expiresAtMs c) m"
      "createCachedAssetKey now host accessToken spaceId environmentId m s = (Inr (promise c), s)"
  | (too_far) "js_gt m (now + 172800000)"
      "createCachedAssetKey now host accessToken spaceId environmentId m s =
           (Inl (ExpiryTooFar m (now + 172800000)), s)"
  | (miss) "\<not> js_gt m (now + 172800000)"
      "assetKeyCache s (scopeKey host spaceId environmentId) = None
         \<or> (\<exists>c. assetKeyCache s (scopeKey host spaceId environmentId) = Some c
                \<and> js_lt (expiresAtMs c) m)"
      "createCachedAssetKey now host accessToken spaceId environmentId m s =
           (Inr (heapTop s), afterInstall now host accessToken spaceId environmentId s)"
proof (cases "assetKeyCache s (scopeKey host spaceId environmentId)")
  case None
  then show ?thesis
    using too_far miss createCachedAssetKey_too_far createCachedAssetKey_miss
    by (cases "js_gt m (now + 172800000)") blast+
next
  case (Some c)
  show ?thesis
  proof (cases "js_lt (expiresAtMs c) m")
    case True
    with Some show ?thesis
      using too_far miss createCachedAssetKey_too_far createCachedAssetKey_miss
      by (cases "js_gt m (now + 172800000)") blast+
  next
    case False
    with Some show ?thesis
      using hit createCachedAssetKey_hit by blast
  qed
qed

section \<open>Settling a fetch\<close>



section \<open>Invariants of the reachable states\<close>







lemma notAfter_step:
  assumes "notAfter T s" and "\<forall>t \<in> set (callTimes [ev]). t \<le> T"
  shows "notAfter T (step s ev)"
proof (cases ev)
  case (Call now host accessToken spaceId environmentId m)
  with assms(2) have "now \<le> T" by simp
  then show ?thesis
    using assms(1)
    by (cases rule: createCachedAssetKey_cases
          [of s host spaceId environmentId m now accessToken])
       (auto simp add: Call notAfter_def afterInstall_def)
next
  case (Settle p r)
  then show ?thesis
    using assms(1)
    by (auto simp add: notAfter_def settle_def Let_def split: option.splits sum.splits if_splits)
qed

lemma notAfter_exec:
  assumes "notAfter T s" and "\<forall>t \<in> set (callTimes evs). t \<le> T"
  shows "notAfter T (exec s evs)"
  using assms
proof (induction evs arbitrary: s)
  case Nil
  then show ?case by simp
next
  case (Cons ev evs)
  have "\<forall>t \<in> set (callTimes [ev]). t \<le> T"
    using Cons.prems(2) by (cases ev) auto
  with Cons.prems(1) have "notAfter T (step s ev)"
    by (rule notAfter_step)
  moreover have "\<forall>t \<in> set (callTimes evs). t \<le> T"
    using Cons.prems(2) by (cases ev) auto
  ultimately show ?case
    using Cons.IH by simp
qed

section \<open>Calls that find a usable entry\<close>

lemma hits_keep_state:
  assumes "assetKeyCache s (scopeKey host spaceId environmentId) = Some c"
      and "\<forall>(now, accessToken, m) \<in> set later. \<not> js_lt (expiresAtMs c) m"
  shows "exec s (callsOn host spaceId environmentId later) = s
       \<and> returned s (callsOn host spaceId environmentId later)
           = replicate (length later) (Inr (promise c))"
  using assms
proof (induction later)
  case Nil
  then show ?case by (simp add: callsOn_def)
next
  case (Cons call later)
  obtain now accessToken m where call: "call = (now, accessToken, m)"
    by (cases call)
  have "\<not> js_lt (expiresAtMs c) m"
    using Cons.prems(2) call by simp
  then have hit: "createCachedAssetKey now host accessToken spaceId environmentId m s
                    = (Inr (promise c), s)"
    using Cons.prems(1) by (rule createCachedAssetKey_hit [rotated])
  have "\<forall>(now, accessToken, m) \<in> set later. \<not> js_lt (expiresAtMs c) m"
    using Cons.prems(2) by simp
  with Cons.IH Cons.prems(1) show ?case
    using hit call by (simp add: callsOn_def)
qed

section \<open>Query parameters\<close>






text \<open>
  What \<open>generateSignedToken\<close> hands to \<open>jwt.sign\<close> when \<open>expiresAtMs\<close> is undefined or
  zero: a payload whose \<open>exp\<close> is undefined. Whether the signer then returns a token
  without expiry or refuses the payload is decided inside the jsonwebtoken package.
\<close>

lemma generateSignedToken_falsy:
  assumes "expMs = None \<or> expMs = Some 0"
  shows "generateSignedToken jwt_sign sec w expMs =
           jwt_sign \<lparr> payload = \<lparr> sub = w, exp = None \<rparr>, secretOrPrivateKey = sec,
                      options = \<lparr> algorithm = ''HS256'' \<rparr> \<rparr>"
  using assms by (auto simp add: generateSignedToken_def)

section \<open>The states of the examples\<close>

lemma cache_after_oneCall:
  "assetKeyCache (exec init oneCall) (scopeKey ''cdn.contentful.com'' ''sp1'' ''master'')
     = Some \<lparr> ref = 1, expiresAtMs = 172800000, promise = 0 \<rparr>"
  by (simp add: oneCall_def init_def createCachedAssetKey_def scopeKey_def js_gt_def Let_def)




section \<open>A failed fetch and the cache (C1)\<close>



section \<open>Single flight (C2)\<close>

text \<open>
  C2, as stated, fails: two calls for one scope key, each with a minimum expiry that is
  not beyond 48 hours from its own clock, can both start a fetch. The first call is made
  at clock 0, the second at clock 1 with a minimum of 1 + 48 hours; the entry of the first
  call expires at 0 + 48 hours, so the second call fetches again. Two fetches are in
  flight for the key, two requests have been sent and the calls hold different promises.
\<close>

theorem second_fetch_while_first_in_flight:
  "returned init twoStrictCalls = [Inr 0, Inr 2]
   \<and> inflightFor (exec init twoStrictCalls) ''cdn.contentful.com:sp1:master'' = [0, 2]
   \<and> length (requests (exec init twoStrictCalls)) = 2
   \<and> \<not> js_gt None (0 + 48 * 60 * 60 * 1000)
   \<and> \<not> js_gt (Some 172800001) (1 + 48 * 60 * 60 * 1000)"
  by (simp add: twoStrictCalls_def init_def createCachedAssetKey_def scopeKey_def js_lt_def
       js_gt_def inflightFor_def Let_def upt_rec)

text \<open>
  C2, amended. From a state whose cache has no entry for the scope key, or one that
  expires before the minimum of the first call, take any number of calls for that key
  with no fetch settling in between: the first with a minimum expiry that is undefined or
  at most 48 hours after its clock \<open>now0\<close>, every later one with a minimum that is
  undefined or at most \<open>now0\<close> + 48 hours, the expiry of the entry the first call
  installs. All of them return the same promise, exactly one request is sent, exactly one
  fetch is added to those in flight, and when it succeeds the promise is fulfilled with
  its asset key.
\<close>

theorem compatible_calls_share_one_fetch:
  assumes "assetKeyCache s (scopeKey host spaceId environmentId) = None
             \<or> (\<exists>c. assetKeyCache s (scopeKey host spaceId environmentId) = Some c
                    \<and> js_lt (expiresAtMs c) m0)"
      and "\<not> js_gt m0 (now0 + 48 * 60 * 60 * 1000)"
      and "\<forall>(now, accessToken, m) \<in> set later. \<not> js_lt (now0 + 48 * 60 * 60 * 1000) m"
  shows "returned s (callsOn host spaceId environmentId ((now0, accessToken0, m0) # later))
           = replicate (Suc (length later)) (Inr (heapTop s))
       \<and> requests (exec s (callsOn host spaceId environmentId ((now0, accessToken0, m0) # later)))
           = requests s @ [createAssetKey_request now0 host accessToken0 spaceId environmentId
                             (Some (now0 + 48 * 60 * 60 * 1000))]
       \<and> inflight (exec s (callsOn host spaceId environmentId ((now0, accessToken0, m0) # later)))
           = (inflight s)(heapTop s \<mapsto>
               \<lparr> cacheKey = scopeKey host spaceId environmentId,
                 installed = \<lparr> ref = Suc (heapTop s),
                               expiresAtMs = now0 + 48 * 60 * 60 * 1000,
                               promise = heapTop s \<rparr> \<rparr>)
       \<and> (\<forall>r key. createAssetKey_result r = Inr key \<longrightarrow>
            promises (settle (heapTop s) r
              (exec s (callsOn host spaceId environmentId ((now0, accessToken0, m0) # later))))
              (heapTop s) = Some (Fulfilled key))"
proof -
  let ?s1 = "afterInstall now0 host accessToken0 spaceId environmentId s"
  let ?c = "\<lparr> ref = Suc (heapTop s), expiresAtMs = now0 + 172800000, promise = heapTop s \<rparr>"
  have first: "createCachedAssetKey now0 host accessToken0 spaceId environmentId m0 s
                 = (Inr (heapTop s), ?s1)"
    using assms(1,2) by (simp add: createCachedAssetKey_miss)
  have entry: "assetKeyCache ?s1 (scopeKey host spaceId environmentId) = Some ?c"
    by (simp add: afterInstall_def)
  have "\<forall>(now, accessToken, m) \<in> set later. \<not> js_lt (expiresAtMs ?c) m"
    using assms(3) by simp
  with entry have rest: "exec ?s1 (callsOn host spaceId environmentId later) = ?s1
       \<and> returned ?s1 (callsOn host spaceId environmentId later)
           = replicate (length later) (Inr (promise ?c))"
    by (rule hits_keep_state)
  have all: "exec s (callsOn host spaceId environmentId ((now0, accessToken0, m0) # later)) = ?s1"
    using first rest by (simp add: callsOn_def)
  have ret: "returned s (callsOn host spaceId environmentId ((now0, accessToken0, m0) # later))
           = replicate (Suc (length later)) (Inr (heapTop s))"
    using first rest by (simp add: callsOn_def)
  have "promises (settle (heapTop s) r ?s1) (heapTop s) = Some (Fulfilled key)"
    if "createAssetKey_result r = Inr key" for r key
    using that by (simp add: settle_def afterInstall_def)
  then show ?thesis
    unfolding all ret by (simp add: afterInstall_def)
qed

theorem compatible_calls_share_one_fetch_witness:
  "assetKeyCache init (scopeKey ''cdn.contentful.com'' ''sp1'' ''master'') = None
   \<and> \<not> js_gt (Some 172800000) (0 + 48 * 60 * 60 * 1000)
   \<and> returned init (callsOn ''cdn.contentful.com'' ''sp1'' ''master''
        [(0, ''tok'', Some 172800000), (1, ''tok2'', Some 5000), (2, ''tok3'', None)])
       = [Inr 0, Inr 0, Inr 0]
   \<and> length (requests (exec init (callsOn ''cdn.contentful.com'' ''sp1'' ''master''
        [(0, ''tok'', Some 172800000), (1, ''tok2'', Some 5000), (2, ''tok3'', None)]))) = 1
   \<and> promises (settle 0 (Response True 200 (Inr exampleKey))
        (exec init (callsOn ''cdn.contentful.com'' ''sp1'' ''master''
          [(0, ''tok'', Some 172800000), (1, ''tok2'', Some 5000), (2, ''tok3'', None)]))) 0
       = Some (Fulfilled exampleKey)"
proof -
  have h1: "assetKeyCache init (scopeKey ''cdn.contentful.com'' ''sp1'' ''master'') = None"
    by (simp add: init_def)
  then have h1': "assetKeyCache init (scopeKey ''cdn.contentful.com'' ''sp1'' ''master'') = None
      \<or> (\<exists>c. assetKeyCache init (scopeKey ''cdn.contentful.com'' ''sp1'' ''master'') = Some c
             \<and> js_lt (expiresAtMs c) (Some 172800000))"
    by simp
  have h2: "\<not> js_gt (Some 172800000) (0 + 48 * 60 * 60 * 1000)"
    by (simp add: js_gt_def)
  have h3: "\<forall>(now, accessToken, m) \<in> set [(1, ''tok2'', Some 5000), (2, ''tok3'', None)].
              \<not> js_lt (0 + 48 * 60 * 60 * 1000) m"
    by (simp add: js_lt_def)
  have h4: "createAssetKey_result (Response True 200 (Inr exampleKey)) = Inr exampleKey"
    by simp
  show ?thesis
    using compatible_calls_share_one_fetch [OF h1' h2 h3, of "''tok''"] h1 h2 h4
    by (simp add: init_def)
qed

section \<open>A minimum expiry beyond the horizon (C3)\<close>

text \<open>
  C3, as stated, fails when the clock has been set back. The cache is tested before the
  horizon: an entry installed at clock 1000 expires at 1000 + 48 hours, and a call made
  afterwards at clock 0 with a minimum of 500 + 48 hours, which is beyond its own
  horizon of 0 + 48 hours, finds that entry sufficient. It returns the promise of the
  entry and throws nothing.
\<close>

theorem clock_set_back_call_is_served:
  "(0 :: int) + 48 * 60 * 60 * 1000 < 172800500
   \<and> createCachedAssetKey 0 ''cdn.contentful.com'' ''tok'' ''sp1'' ''master'' (Some 172800500)
        (exec init clockSetBack) = (Inr 0, exec init clockSetBack)"
  by (simp add: clockSetBack_def init_def createCachedAssetKey_def scopeKey_def js_lt_def
        js_gt_def Let_def)

text \<open>
  C3, amended. After any sequence of calls and settlements in which no call read a clock
  later than \<open>now\<close>, a call at clock \<open>now\<close> whose minimum expiry is greater than
  \<open>now\<close> + 48 hours throws the out-of-range error and leaves the state as it is: the
  cache is untouched and no request is sent.
\<close>

theorem expiry_beyond_horizon_is_refused:
  assumes "\<forall>t \<in> set (callTimes evs). t \<le> now"
      and "now + 48 * 60 * 60 * 1000 < m"
  shows "createCachedAssetKey now host accessToken spaceId environmentId (Some m) (exec init evs)
           = (Inl (ExpiryTooFar (Some m) (now + 48 * 60 * 60 * 1000)), exec init evs)"
proof -
  have "notAfter now (exec init evs)"
    using assms(1) by (intro notAfter_exec) (simp_all add: notAfter_def init_def)
  then have "assetKeyCache (exec init evs) (scopeKey host spaceId environmentId) = None
      \<or> (\<exists>c. assetKeyCache (exec init evs) (scopeKey host spaceId environmentId) = Some c
             \<and> js_lt (expiresAtMs c) (Some m))"
    using assms(2) by (cases "assetKeyCache (exec init evs) (scopeKey host spaceId environmentId)")
      (force simp add: notAfter_def js_lt_def)+
  moreover have "js_gt (Some m) (now + 172800000)"
    using assms(2) by (simp add: js_gt_def)
  ultimately show ?thesis
    using createCachedAssetKey_too_far by simp
qed

theorem expiry_beyond_horizon_is_refused_witness:
  "callTimes (oneCall @ [Settle 0 (Response True 200 (Inr exampleKey))]) = [0]
   \<and> (10 :: int) + 48 * 60 * 60 * 1000 < 172800011
   \<and> createCachedAssetKey 10 ''cdn.contentful.com'' ''tok'' ''sp1'' ''master'' (Some 172800011)
        (exec init (oneCall @ [Settle 0 (Response True 200 (Inr exampleKey))]))
       = (Inl (ExpiryTooFar (Some 172800011) 172800010),
          exec init (oneCall @ [Settle 0 (Response True 200 (Inr exampleKey))]))"
proof -
  have h1: "\<forall>t \<in> set (callTimes (oneCall @ [Settle 0 (Response True 200 (Inr exampleKey))])).
              t \<le> 10"
    by (simp add: oneCall_def)
  have h2: "(10 :: int) + 48 * 60 * 60 * 1000 < 172800011"
    by simp
  show ?thesis
    using expiry_beyond_horizon_is_refused [OF h1 h2]
    by (simp add: oneCall_def)
qed

section \<open>Cache hits (C4)\<close>

text \<open>
  C4. When the cache holds an entry for the scope key whose \<open>expiresAtMs\<close> is at least
  the minimum expiry of the call, the call returns the promise of that entry, whatever
  state the promise is in, and the state after the call is the state before it: no request
  is sent and the cache is not modified.
\<close>

theorem cache_hit_returns_existing_promise:
  assumes "assetKeyCache s (scopeKey host spaceId environmentId) = Some c"
      and "m \<le> expiresAtMs c"
  shows "createCachedAssetKey now host accessToken spaceId environmentId (Some m) s
           = (Inr (promise c), s)"
  using assms by (simp add: createCachedAssetKey_hit js_lt_def)

theorem cache_hit_returns_existing_promise_witness:
  "assetKeyCache (exec init oneCall) (scopeKey ''cdn.contentful.com'' ''sp1'' ''master'')
     = Some \<lparr> ref = 1, expiresAtMs = 172800000, promise = 0 \<rparr>
   \<and> (5000 :: int) \<le> expiresAtMs \<lparr> ref = 1, expiresAtMs = 172800000, promise = 0 \<rparr>
   \<and> createCachedAssetKey 7 ''cdn.contentful.com'' ''tok2'' ''sp1'' ''master'' (Some 5000)
        (exec init oneCall) = (Inr 0, exec init oneCall)"
proof -
  have h2: "(5000 :: int) \<le> expiresAtMs \<lparr> ref = 1, expiresAtMs = 172800000, promise = 0 \<rparr>"
    by simp
  show ?thesis
    using cache_hit_returns_existing_promise [OF cache_after_oneCall h2] cache_after_oneCall
    by simp
qed

section \<open>The expiry of an installed entry (C5)\<close>

text \<open>
  C5. Whenever a call changes the state, it returns a new promise and installs for the
  scope key an entry whose \<open>expiresAtMs\<close> is the clock of the call plus 48 hours,
  whatever minimum the caller asked for. The request it sends is that of
  \<open>createAssetKey\<close> called with exactly this expiry, whose body carries it in whole
  seconds, rounded down.
\<close>

theorem installed_entry_has_maximum_horizon:
  assumes "createCachedAssetKey now host accessToken spaceId environmentId m s = (res, s')"
      and "s' \<noteq> s"
  shows "res = Inr (heapTop s)
       \<and> assetKeyCache s' = (assetKeyCache s)(scopeKey host spaceId environmentId \<mapsto>
            \<lparr> ref = Suc (heapTop s), expiresAtMs = now + 48 * 60 * 60 * 1000,
              promise = heapTop s \<rparr>)
       \<and> requests s' = requests s @
            [createAssetKey_request now host accessToken spaceId environmentId
               (Some (now + 48 * 60 * 60 * 1000))]
       \<and> expiresAt (last (requests s')) = (now + 48 * 60 * 60 * 1000) div 1000"
  using assms
  by (cases rule: createCachedAssetKey_cases [of s host spaceId environmentId m now accessToken])
     (auto simp add: afterInstall_def createAssetKey_request_def)

theorem installed_entry_has_maximum_horizon_witness:
  "createCachedAssetKey 1000 ''cdn.contentful.com'' ''tok'' ''sp1'' ''master'' (Some 5000) init
     = (Inr 0, afterInstall 1000 ''cdn.contentful.com'' ''tok'' ''sp1'' ''master'' init)
   \<and> afterInstall 1000 ''cdn.contentful.com'' ''tok'' ''sp1'' ''master'' init \<noteq> init
   \<and> assetKeyCache (afterInstall 1000 ''cdn.contentful.com'' ''tok'' ''sp1'' ''master'' init)
        (scopeKey ''cdn.contentful.com'' ''sp1'' ''master'')
       = Some \<lparr> ref = 1, expiresAtMs = 172801000, promise = 0 \<rparr>
   \<and> expiresAt (last (requests
        (afterInstall 1000 ''cdn.contentful.com'' ''tok'' ''sp1'' ''master'' init))) = 172801"
proof -
  have h1: "createCachedAssetKey 1000 ''cdn.contentful.com'' ''tok'' ''sp1'' ''master''
              (Some 5000) init
            = (Inr 0, afterInstall 1000 ''cdn.contentful.com'' ''tok'' ''sp1'' ''master'' init)"
    by (simp add: createCachedAssetKey_miss init_def js_gt_def)
  have "heapTop (afterInstall 1000 ''cdn.contentful.com'' ''tok'' ''sp1'' ''master'' init)
          \<noteq> heapTop init"
    by (simp add: afterInstall_def)
  then have h2: "afterInstall 1000 ''cdn.contentful.com'' ''tok'' ''sp1'' ''master'' init \<noteq> init"
    by auto
  show ?thesis
    using installed_entry_has_maximum_horizon [OF h1 h2] h1 h2
    by (simp add: init_def createAssetKey_request_def)
qed

section \<open>The signed token (C6)\<close>

text \<open>
  C6, as stated, fails for an \<open>expiresAtMs\<close> that is undefined or zero: the payload
  handed to \<open>jwt.sign\<close> then has no \<open>exp\<close>, where the claim promises the number
  \<open>floor(expiresAtMs / 1000)\<close>. The identity function stands for \<open>jwt.sign\<close> here, so
  that the call returns its arguments.
\<close>

theorem falsy_expiry_gives_no_exp:
  "exp (payload (generateSignedToken id ''s3cr3t'' ''https://images.ctfassets.net/sp1/a/b.jpg''
                   None)) = None
   \<and> exp (payload (generateSignedToken id ''s3cr3t'' ''https://images.ctfassets.net/sp1/a/b.jpg''
                     (Some 0))) \<noteq> Some (0 div 1000)"
  by (simp add: generateSignedToken_def)

text \<open>
  C6, amended. For every secret, every URL that parses and every \<open>expiresAtMs\<close> that is
  a number other than zero, the token of \<open>generateSignedUrl\<close> is what \<open>jwt.sign\<close> returns
  for the algorithm HS256, the secret as key, and a payload whose \<open>sub\<close> is origin plus
  path of the URL and whose \<open>exp\<close> is \<open>floor(expiresAtMs / 1000)\<close>; the query parameters
  of the URL do not enter the call.
\<close>

theorem token_binds_canonical_url_and_expiry:
  assumes "newURL u = Some parsed"
      and "x \<noteq> 0"
  shows "generateSignedToken jwt_sign sec (origin parsed @ pathname parsed) (Some x)
           = jwt_sign \<lparr> payload = \<lparr> sub = origin parsed @ pathname parsed,
                                    exp = Some (x div 1000) \<rparr>,
                        secretOrPrivateKey = sec,
                        options = \<lparr> algorithm = ''HS256'' \<rparr> \<rparr>
       \<and> generateSignedUrl newURL toString jwt_sign pol sec u (Some x)
           = (case jwt_sign \<lparr> payload = \<lparr> sub = origin parsed @ pathname parsed,
                                          exp = Some (x div 1000) \<rparr>,
                              secretOrPrivateKey = sec,
                              options = \<lparr> algorithm = ''HS256'' \<rparr> \<rparr> of
                Inl err \<Rightarrow> Inl err
              | Inr token \<Rightarrow>
                  Inr (toString (parsed\<lparr> searchParams :=
                         searchParams_set ''policy'' pol
                           (searchParams_set ''token'' token (searchParams parsed)) \<rparr>)))
       \<and> generateSignedToken jwt_sign sec
            (origin (parsed\<lparr> searchParams := qs \<rparr>) @ pathname (parsed\<lparr> searchParams := qs \<rparr>))
            (Some x)
           = generateSignedToken jwt_sign sec (origin parsed @ pathname parsed) (Some x)"
  using assms by (simp add: generateSignedUrl_def generateSignedToken_def)

theorem token_binds_canonical_url_and_expiry_witness:
  "exampleURL exampleHref = Some exampleParsed
   \<and> (5999 :: int) \<noteq> 0
   \<and> generateSignedToken exampleSign ''s3cr3t'' (origin exampleParsed @ pathname exampleParsed)
        (Some 5999)
       = exampleSign
           \<lparr> payload = \<lparr> sub = ''https://images.ctfassets.net/sp1/a/b.jpg'', exp = Some 5 \<rparr>,
             secretOrPrivateKey = ''s3cr3t'', options = \<lparr> algorithm = ''HS256'' \<rparr> \<rparr>"
proof -
  have h1: "exampleURL exampleHref = Some exampleParsed"
    by (simp add: exampleURL_def)
  have h2: "(5999 :: int) \<noteq> 0"
    by simp
  show ?thesis
    using token_binds_canonical_url_and_expiry
            [where newURL = exampleURL and u = exampleHref and parsed = exampleParsed
               and x = 5999 and jwt_sign = exampleSign and sec = "''s3cr3t''", OF h1 h2]
          h1
    by (simp add: exampleParsed_def)
qed

section \<open>The signed URL (C7)\<close>



section \<open>Two invocations of generateSignedToken (C8)\<close>




section \<open>An undefined minimum expiry (C10)\<close>

text \<open>
  C10. With \<open>minExpiresAtMs\<close> undefined both comparisons are false. \<open>signUrl\<close> passes
  its \<open>expiresAtMs\<close> on unchanged, and the call never throws: when the cache has an
  entry for the scope key it returns the promise of that entry and changes nothing,
  whatever the expiry of the entry; when it has none it starts a fetch and sends one
  request.
\<close>

theorem undefined_minimum_reuses_any_entry:
  "\<not> js_lt a None \<and> \<not> js_gt None b
   \<and> signUrl now host accessToken spaceId environmentId u None s =
       createCachedAssetKey now host accessToken spaceId environmentId None s
   \<and> (\<exists>p. fst (createCachedAssetKey now host accessToken spaceId environmentId None s) = Inr p)
   \<and> (\<forall>c. assetKeyCache s (scopeKey host spaceId environmentId) = Some c \<longrightarrow>
          createCachedAssetKey now host accessToken spaceId environmentId None s
            = (Inr (promise c), s))
   \<and> (assetKeyCache s (scopeKey host spaceId environmentId) = None \<longrightarrow>
          createCachedAssetKey now host accessToken spaceId environmentId None s
            = (Inr (heapTop s), afterInstall now host accessToken spaceId environmentId s)
          \<and> length (requests (afterInstall now host accessToken spaceId environmentId s))
              = Suc (length (requests s)))"
  by (cases rule: createCachedAssetKey_cases [of s host spaceId environmentId None now accessToken])
     (auto simp add: signUrl_def afterInstall_def js_gt_def js_lt_def)

text \<open>
  The example: an entry installed at clock 0 is reused by a call made long after it has
  expired.
\<close>

theorem undefined_minimum_reuses_any_entry_witness:
  "assetKeyCache (exec init oneCall) (scopeKey ''cdn.contentful.com'' ''sp1'' ''master'')
     = Some \<lparr> ref = 1, expiresAtMs = 172800000, promise = 0 \<rparr>
   \<and> signUrl 1000000000000 ''cdn.contentful.com'' ''tok'' ''sp1'' ''master'' exampleHref None
        (exec init oneCall) = (Inr 0, exec init oneCall)"
  using undefined_minimum_reuses_any_entry
          [of 0 0 1000000000000 "''cdn.contentful.com''" "''tok''" "''sp1''" "''master''"
              exampleHref "exec init oneCall"]
        cache_after_oneCall
  by simp

end
